theory Spec2Isabelle
  imports Complex_Main
begin

section \<open>JavaScript values used by \<^verbatim>\<open>frontend/src/App.js\<close>\<close>

text \<open>
  Strings are \<^typ>\<open>string\<close>; a \<^typ>\<open>char\<close> stands for a UTF-16 code unit below 256.
  A string is falsy in a JavaScript condition exactly when it is empty, so
  \<^verbatim>\<open>!formData.state\<close> is \<open>state fd = []\<close>.

  \<^verbatim>\<open>parseFloat\<close> and \<^verbatim>\<open>String.prototype.trim\<close> are built-ins of the language and
  are modelled after ECMAScript.  White space is \<^verbatim>\<open>WhiteSpace\<close> and
  \<^verbatim>\<open>LineTerminator\<close>: below 256 these are TAB, LF, VT, FF, CR, SP and NBSP.
  \<open>parseFloat\<close> skips leading white space, reads the longest prefix that is a
  \<^verbatim>\<open>StrDecimalLiteral\<close>, yields \<open>NaN\<close> when there is none, and otherwise the Number
  value of the literal: its decimal value rounded to the nearest binary64 value, ties
  to even, with overflow to an infinity, underflow to a zero and the sign kept on
  zero.  (For a literal of more than 20 significant digits ECMAScript also allows the
  value of the literal cut after the 20th digit; the exact value is taken here.)  A
  finite non-zero Number, and positive zero, is \<open>Num q\<close> with \<open>q\<close> its value.
\<close>

datatype jsnum = NaN | PosInfinity | NegInfinity | NegZero | Num rat

definition isWhiteSpace :: "char \<Rightarrow> bool" where
  "isWhiteSpace c =
     (c \<in> set [CHR 0x09, CHR 0x0A, CHR 0x0B, CHR 0x0C, CHR 0x0D, CHR 0x20, CHR 0xA0])"

definition isDigit :: "char \<Rightarrow> bool" where
  "isDigit c = (c \<in> set ''0123456789'')"

definition digitVal :: "char \<Rightarrow> nat" where
  "digitVal c = of_char c - 48"

definition digitsVal :: "string \<Rightarrow> nat" where
  "digitsVal ds = foldl (\<lambda>a c. 10 * a + digitVal c) 0 ds"

definition trim :: "string \<Rightarrow> string" where
  "trim s = rev (dropWhile isWhiteSpace (rev (dropWhile isWhiteSpace s)))"

text \<open>The sign of a literal: \<open>(negative, rest)\<close>.\<close>

definition readSign :: "string \<Rightarrow> bool \<times> string" where
  "readSign s =
     (case s of
        [] \<Rightarrow> (False, [])
      | c # r \<Rightarrow> if c = CHR ''-'' then (True, r)
                 else if c = CHR ''+'' then (False, r)
                 else (False, s))"

text \<open>An \<^verbatim>\<open>ExponentPart\<close> counts only when at least one digit follows its sign.\<close>

definition readExponent :: "string \<Rightarrow> int" where
  "readExponent s =
     (case s of
        [] \<Rightarrow> 0
      | c # r \<Rightarrow>
          if c = CHR ''e'' \<or> c = CHR ''E'' then
            (let (neg, r') = readSign r; ds = takeWhile isDigit r'
             in if ds = [] then 0
                else if neg then - int (digitsVal ds) else int (digitsVal ds))
          else 0)"

text \<open>
  Rounding to binary64.  \<open>floorLog2 n\<close> is the position of the leading bit of \<open>n\<close>,
  \<open>pow2 e\<close> is \<open>2\<^sup>e\<close>, and \<open>roundHalfEven a b\<close> is the integer nearest to \<open>a / b\<close>, the
  even one of two that are equally near.
\<close>

function floorLog2 :: "nat \<Rightarrow> nat" where
  "floorLog2 n = (if n < 2 then 0 else Suc (floorLog2 (n div 2)))"
  by pat_completeness auto
termination
  by (relation "measure id") auto

declare floorLog2.simps [simp del]

definition pow2 :: "int \<Rightarrow> rat" where
  "pow2 e = (if 0 \<le> e then 2 ^ nat e else 1 / 2 ^ nat (- e))"

definition roundHalfEven :: "nat \<Rightarrow> nat \<Rightarrow> nat" where
  "roundHalfEven a b =
     (let f = a div b; r = a mod b
      in if 2 * r < b then f
         else if b < 2 * r then Suc f
         else if even f then f else Suc f)"

text \<open>
  The binary64 value nearest to \<open>a / b\<close> for \<open>b > 0\<close>, or \<open>None\<close> when it overflows.
  With \<open>2\<^sup>e \<le> a / b < 2\<^sup>e\<^sup>+\<^sup>1\<close> the spacing of binary64 values there is \<open>2\<^sup>u\<close> for
  \<open>u = max e (-1022) - 52\<close>; below \<open>2\<^sup>-\<^sup>1\<^sup>0\<^sup>2\<^sup>2\<close> the values are subnormal.
\<close>

definition roundBinary64 :: "nat \<Rightarrow> nat \<Rightarrow> rat option" where
  "roundBinary64 a b =
     (if a = 0 then Some 0
      else
        let e0 = int (floorLog2 a) - int (floorLog2 b);
            e = (if of_nat b * pow2 e0 \<le> (of_nat a :: rat) then e0 else e0 - 1)
        in if 1023 < e then None
           else
             let u = max e (- 1022) - 52;
                 n = roundHalfEven (a * 2 ^ nat (- u)) (b * 2 ^ nat u);
                 r = of_nat n * pow2 u
             in if pow2 1024 \<le> r then None else Some r)"

definition parseFloat :: "string \<Rightarrow> jsnum" where
  "parseFloat s =
     (let (neg, r) = readSign (dropWhile isWhiteSpace s)
      in if take 8 r = ''Infinity'' then (if neg then NegInfinity else PosInfinity)
         else
           let ip = takeWhile isDigit r;
               r1 = dropWhile isDigit r;
               fp = (case r1 of [] \<Rightarrow> []
                     | c # r2 \<Rightarrow> if c = CHR ''.'' then takeWhile isDigit r2 else []);
               r3 = (case r1 of [] \<Rightarrow> []
                     | c # r2 \<Rightarrow> if c = CHR ''.'' then dropWhile isDigit r2 else r1)
           in if ip = [] \<and> fp = [] then NaN
              else
                let ex = readExponent r3 - int (length fp)
                in case roundBinary64 (digitsVal (ip @ fp) * 10 ^ nat ex) (10 ^ nat (- ex)) of
                     None \<Rightarrow> if neg then NegInfinity else PosInfinity
                   | Some q \<Rightarrow> if q = 0 then (if neg then NegZero else Num 0)
                               else Num (if neg then - q else q))"

text \<open>A number that is greater than zero; \<open>NaN\<close> and the zeros are not.\<close>

fun isPositive :: "jsnum \<Rightarrow> bool" where
  "isPositive NaN = False"
| "isPositive PosInfinity = True"
| "isPositive NegInfinity = False"
| "isPositive NegZero = False"
| "isPositive (Num q) = (0 < q)"

text \<open>JSON values, for the request body handed to \<^verbatim>\<open>axios.post\<close>.\<close>

datatype json = JNull | JString string | JNumber jsnum | JObject "(string \<times> json) list"

text \<open>Property access \<^verbatim>\<open>o.k\<close>; \<open>None\<close> is \<^verbatim>\<open>undefined\<close>.\<close>

fun jget :: "string \<Rightarrow> json \<Rightarrow> json option" where
  "jget k (JObject kvs) = map_of kvs k"
| "jget k _ = None"

fun jpath :: "string list \<Rightarrow> json \<Rightarrow> json option" where
  "jpath [] j = Some j"
| "jpath (k # ks) j = (case jget k j of None \<Rightarrow> None | Some j' \<Rightarrow> jpath ks j')"

text \<open>Toast notifications raised through \<^verbatim>\<open>useToast\<close>, in the order they are raised.\<close>

record toast =
  title :: string
  description :: string
  destructive :: bool


section \<open>The prediction form: \<^verbatim>\<open>CropPredictionForm\<close>\<close>

text \<open>
  \<^verbatim>\<open>formData\<close> is an object with seventeen string-valued keys.  Every value written
  into it comes from \<^verbatim>\<open>e.target.value\<close> or a select's \<^verbatim>\<open>onValueChange\<close>, both strings.
\<close>

record form_data =
  state :: string
  district :: string
  village :: string
  pincode :: string
  farm_size :: string
  farm_size_unit :: string
  crop_name :: string
  variety :: string
  sowing_date :: string
  season :: string
  soil_type :: string
  fertilizer_used :: string
  ph_level :: string
  organic_carbon :: string
  irrigation_source :: string
  irrigation_frequency :: string
  water_availability :: string

text \<open>The argument of \<^verbatim>\<open>useState\<close> at the top of the component.\<close>

definition initialFormData :: form_data where
  "initialFormData =
     \<lparr>state = [], district = [], village = [], pincode = [], farm_size = [],
      farm_size_unit = ''hectare'',
      crop_name = [], variety = [], sowing_date = [], season = [],
      soil_type = [], fertilizer_used = [], ph_level = [], organic_carbon = [],
      irrigation_source = [], irrigation_frequency = [], water_availability = []\<rparr>"

text \<open>
  The key passed to \<^verbatim>\<open>handleInputChange\<close>; the form calls it with these seventeen
  literals only.
\<close>

datatype field =
    State | District | Village | Pincode | Farm_size | Farm_size_unit
  | Crop_name | Variety | Sowing_date | Season
  | Soil_type | Fertilizer_used | Ph_level | Organic_carbon
  | Irrigation_source | Irrigation_frequency | Water_availability

text \<open>\<^verbatim>\<open>prev => ({...prev, [field]: value})\<close>: one key is replaced, the rest is copied.\<close>

fun handleInputChange :: "field \<Rightarrow> string \<Rightarrow> form_data \<Rightarrow> form_data" where
  "handleInputChange State v prev = prev\<lparr>state := v\<rparr>"
| "handleInputChange District v prev = prev\<lparr>district := v\<rparr>"
| "handleInputChange Village v prev = prev\<lparr>village := v\<rparr>"
| "handleInputChange Pincode v prev = prev\<lparr>pincode := v\<rparr>"
| "handleInputChange Farm_size v prev = prev\<lparr>farm_size := v\<rparr>"
| "handleInputChange Farm_size_unit v prev = prev\<lparr>farm_size_unit := v\<rparr>"
| "handleInputChange Crop_name v prev = prev\<lparr>crop_name := v\<rparr>"
| "handleInputChange Variety v prev = prev\<lparr>variety := v\<rparr>"
| "handleInputChange Sowing_date v prev = prev\<lparr>sowing_date := v\<rparr>"
| "handleInputChange Season v prev = prev\<lparr>season := v\<rparr>"
| "handleInputChange Soil_type v prev = prev\<lparr>soil_type := v\<rparr>"
| "handleInputChange Fertilizer_used v prev = prev\<lparr>fertilizer_used := v\<rparr>"
| "handleInputChange Ph_level v prev = prev\<lparr>ph_level := v\<rparr>"
| "handleInputChange Organic_carbon v prev = prev\<lparr>organic_carbon := v\<rparr>"
| "handleInputChange Irrigation_source v prev = prev\<lparr>irrigation_source := v\<rparr>"
| "handleInputChange Irrigation_frequency v prev = prev\<lparr>irrigation_frequency := v\<rparr>"
| "handleInputChange Water_availability v prev = prev\<lparr>water_availability := v\<rparr>"

text \<open>Reading a key, \<^verbatim>\<open>formData[field]\<close>.\<close>

fun getField :: "field \<Rightarrow> form_data \<Rightarrow> string" where
  "getField State fd = state fd"
| "getField District fd = district fd"
| "getField Village fd = village fd"
| "getField Pincode fd = pincode fd"
| "getField Farm_size fd = farm_size fd"
| "getField Farm_size_unit fd = farm_size_unit fd"
| "getField Crop_name fd = crop_name fd"
| "getField Variety fd = variety fd"
| "getField Sowing_date fd = sowing_date fd"
| "getField Season fd = season fd"
| "getField Soil_type fd = soil_type fd"
| "getField Fertilizer_used fd = fertilizer_used fd"
| "getField Ph_level fd = ph_level fd"
| "getField Organic_carbon fd = organic_carbon fd"
| "getField Irrigation_source fd = irrigation_source fd"
| "getField Irrigation_frequency fd = irrigation_frequency fd"
| "getField Water_availability fd = water_availability fd"

text \<open>The profile held by \<^verbatim>\<open>AuthProvider\<close> and read through \<^verbatim>\<open>useAuth\<close>.\<close>

record user_profile =
  id' :: string
  email :: string
  name :: string
  phone :: string

text \<open>The body of a successful \<^verbatim>\<open>POST /predict-yield\<close> response, as the result view reads it.\<close>

record predictionResult =
  predicted_yield :: jsnum
  yield_unit :: string
  district_average :: jsnum
  comparison_percentage :: jsnum
  confidence_score :: jsnum
  recommendations :: "string list"

text \<open>
  The state of the component: its \<^verbatim>\<open>useState\<close> cells (\<open>form_loading\<close> is the cell
  \<^verbatim>\<open>loading\<close>), the toasts it has raised, and the requests that were issued and have not
  been answered yet.  A district request remembers the state it was issued for, a
  prediction request its body.  The option lists \<^verbatim>\<open>states\<close>, \<^verbatim>\<open>crops\<close> and
  \<^verbatim>\<open>soilTypes\<close> are loaded once on mount and play no part below.
\<close>

record predictionForm =
  formData :: form_data
  districts :: "string list"
  form_loading :: bool
  prediction :: "predictionResult option"
  form_toasts :: "toast list"
  districtRequests :: "string list"
  predictRequests :: "json list"

definition initialForm :: predictionForm where
  "initialForm =
     \<lparr>formData = initialFormData, districts = [], form_loading = False,
      prediction = None, form_toasts = [], districtRequests = [], predictRequests = []\<rparr>"

definition errorToast :: "string \<Rightarrow> toast" where
  "errorToast d = \<lparr>title = ''Error'', description = d, destructive = True\<rparr>"

definition successToast :: "string \<Rightarrow> toast" where
  "successToast d = \<lparr>title = ''Success'', description = d, destructive = False\<rparr>"

text \<open>The \<open>i\<close>-th pending request leaves the list when its answer arrives.\<close>

definition answered :: "nat \<Rightarrow> 'a list \<Rightarrow> 'a list" where
  "answered i xs = take i xs @ drop (Suc i) xs"

subsection \<open>\<^verbatim>\<open>fetchDistricts\<close> and the effect on \<^verbatim>\<open>formData.state\<close>\<close>

text \<open>
  \<^verbatim>\<open>fetchDistricts(state)\<close> issues \<^verbatim>\<open>GET /districts/${state}\<close> and suspends.  When the
  response arrives it calls \<^verbatim>\<open>setDistricts(response.data.districts)\<close>; when the request
  fails it raises a toast.  Neither continuation looks at \<^verbatim>\<open>formData\<close>.
\<close>

definition fetchDistricts :: "string \<Rightarrow> predictionForm \<Rightarrow> predictionForm" where
  "fetchDistricts s st = st\<lparr>districtRequests := districtRequests st @ [s]\<rparr>"

definition fetchDistricts_resolved :: "string list \<Rightarrow> predictionForm \<Rightarrow> predictionForm" where
  "fetchDistricts_resolved ds st = st\<lparr>districts := ds\<rparr>"

definition fetchDistricts_rejected :: "predictionForm \<Rightarrow> predictionForm" where
  "fetchDistricts_rejected st =
     st\<lparr>form_toasts := form_toasts st @ [errorToast ''Failed to fetch districts'']\<rparr>"

text \<open>
  \<^verbatim>\<open>useEffect(() => { if (formData.state) fetchDistricts(formData.state) }, [formData.state])\<close>:
  after a render the effect runs when \<^verbatim>\<open>formData.state\<close> differs from its value \<open>old\<close>
  at the previous render.
\<close>

definition districtsEffect :: "string \<Rightarrow> predictionForm \<Rightarrow> predictionForm" where
  "districtsEffect old st =
     (if state (formData st) = old then st
      else if state (formData st) \<noteq> [] then fetchDistricts (state (formData st)) st
      else st)"

subsection \<open>\<^verbatim>\<open>handleSubmit\<close>\<close>

datatype error = TypeError

text \<open>
  The object literal \<^verbatim>\<open>requestData\<close>.  Reading \<^verbatim>\<open>user.id\<close> throws a \<^verbatim>\<open>TypeError\<close>
  when \<^verbatim>\<open>user\<close> is \<^verbatim>\<open>null\<close>.
\<close>

definition requestData :: "user_profile option \<Rightarrow> form_data \<Rightarrow> error + json" where
  "requestData usr fd =
     (case usr of
        None \<Rightarrow> Inl TypeError
      | Some u \<Rightarrow> Inr (JObject
          [(''user_id'', JString (id' u)),
           (''farm_details'', JObject
              [(''state'', JString (state fd)),
               (''district'', JString (district fd)),
               (''village'', JString (village fd)),
               (''pincode'', JString (pincode fd)),
               (''farm_size'', JNumber (parseFloat (farm_size fd))),
               (''farm_size_unit'', JString (farm_size_unit fd))]),
           (''crop_info'', JObject
              [(''crop_name'', JString (crop_name fd)),
               (''variety'', JString (variety fd)),
               (''sowing_date'', JString (sowing_date fd)),
               (''season'', JString (season fd))]),
           (''soil_inputs'', JObject
              [(''soil_type'', JString (soil_type fd)),
               (''fertilizer_used'', JString (fertilizer_used fd)),
               (''ph_level'',
                  if ph_level fd \<noteq> [] then JNumber (parseFloat (ph_level fd)) else JNull),
               (''organic_carbon'',
                  if organic_carbon fd \<noteq> [] then JNumber (parseFloat (organic_carbon fd))
                  else JNull)]),
           (''irrigation_info'', JObject
              [(''irrigation_source'', JString (irrigation_source fd)),
               (''irrigation_frequency'', JString (irrigation_frequency fd)),
               (''water_availability'', JString (water_availability fd))])]))"

text \<open>
  \<^verbatim>\<open>error.response?.data?.detail || fallback\<close>: an absent or empty detail gives the
  fallback text.
\<close>

definition detailOr :: "string option \<Rightarrow> string \<Rightarrow> string" where
  "detailOr detail fallback =
     (case detail of None \<Rightarrow> fallback | Some d \<Rightarrow> if d \<noteq> [] then d else fallback)"

text \<open>The \<^verbatim>\<open>catch\<close> and \<^verbatim>\<open>finally\<close> blocks.\<close>

definition handleSubmit_rejected :: "string option \<Rightarrow> predictionForm \<Rightarrow> predictionForm" where
  "handleSubmit_rejected detail st =
     st\<lparr>form_toasts := form_toasts st @
           [errorToast (detailOr detail ''Failed to generate prediction'')],
        form_loading := False\<rparr>"

text \<open>The rest of the \<^verbatim>\<open>try\<close> block after the \<^verbatim>\<open>await\<close>, then \<^verbatim>\<open>finally\<close>.\<close>

definition handleSubmit_resolved :: "predictionResult \<Rightarrow> predictionForm \<Rightarrow> predictionForm" where
  "handleSubmit_resolved r st =
     st\<lparr>prediction := Some r,
        form_toasts := form_toasts st @
           [successToast ''Crop yield prediction generated successfully!''],
        form_loading := False\<rparr>"

text \<open>
  \<^verbatim>\<open>handleSubmit\<close> up to its \<^verbatim>\<open>await\<close>: \<^verbatim>\<open>setLoading(true)\<close>, then the request is
  assembled and posted.  An exception while assembling goes to \<^verbatim>\<open>catch\<close> at once; it
  has no \<^verbatim>\<open>response\<close>.
\<close>

definition handleSubmit :: "user_profile option \<Rightarrow> predictionForm \<Rightarrow> predictionForm" where
  "handleSubmit usr st =
     (let st1 = st\<lparr>form_loading := True\<rparr>
      in case requestData usr (formData st1) of
           Inl e \<Rightarrow> handleSubmit_rejected None st1
         | Inr body \<Rightarrow> st1\<lparr>predictRequests := predictRequests st1 @ [body]\<rparr>)"

text \<open>The \<^verbatim>\<open>disabled\<close> attribute of the submit button.\<close>

definition submitDisabled :: "predictionForm \<Rightarrow> bool" where
  "submitDisabled st =
     (form_loading st \<or> state (formData st) = [] \<or> crop_name (formData st) = [] \<or>
      season (formData st) = [] \<or> soil_type (formData st) = [] \<or>
      irrigation_source (formData st) = [] \<or> irrigation_frequency (formData st) = [] \<or>
      farm_size (formData st) = [])"

subsection \<open>The component as a transition system\<close>

text \<open>
  The component renders the result view when \<^verbatim>\<open>prediction\<close> is set and the form
  otherwise.  An event reaches a handler only through an element that is rendered and
  not disabled.  Responses arrive in any order; \<open>api\<close> gives the district list the
  server answers with for a state.

  The \<^verbatim>\<open>form\<close> element has no \<^verbatim>\<open>noValidate\<close>, so the browser dispatches the submit
  event, and with it \<^verbatim>\<open>handleSubmit\<close>, only when its constraint validation of the
  inputs succeeds: \<^verbatim>\<open>required\<close> on \<^verbatim>\<open>farm_size\<close>, \<^verbatim>\<open>min\<close> and \<^verbatim>\<open>max\<close> on
  \<^verbatim>\<open>ph_level\<close>, \<^verbatim>\<open>step\<close> on the three number inputs.  The browser's verdict on the
  field values is the parameter \<open>valid\<close>.
\<close>

datatype formEvent =
    InputChange field string
  | Submit
  | DistrictsResolved nat
  | DistrictsRejected nat
  | PredictResolved nat predictionResult
  | PredictRejected nat "string option"
  | MakeAnotherPrediction

fun step ::
  "(string \<Rightarrow> string list) \<Rightarrow> (form_data \<Rightarrow> bool) \<Rightarrow> user_profile option \<Rightarrow>
   predictionForm \<Rightarrow> formEvent \<Rightarrow> predictionForm" where
  "step api valid usr st (InputChange f v) =
     (if prediction st \<noteq> None then st
      else if f = District \<and> state (formData st) = [] then st
      else districtsEffect (state (formData st))
             (st\<lparr>formData := handleInputChange f v (formData st)\<rparr>))"
| "step api valid usr st Submit =
     (if prediction st \<noteq> None \<or> submitDisabled st \<or> \<not> valid (formData st) then st
      else handleSubmit usr st)"
| "step api valid usr st (DistrictsResolved i) =
     (if i < length (districtRequests st)
      then fetchDistricts_resolved (api (districtRequests st ! i))
             (st\<lparr>districtRequests := answered i (districtRequests st)\<rparr>)
      else st)"
| "step api valid usr st (DistrictsRejected i) =
     (if i < length (districtRequests st)
      then fetchDistricts_rejected (st\<lparr>districtRequests := answered i (districtRequests st)\<rparr>)
      else st)"
| "step api valid usr st (PredictResolved i r) =
     (if i < length (predictRequests st)
      then handleSubmit_resolved r (st\<lparr>predictRequests := answered i (predictRequests st)\<rparr>)
      else st)"
| "step api valid usr st (PredictRejected i detail) =
     (if i < length (predictRequests st)
      then handleSubmit_rejected detail (st\<lparr>predictRequests := answered i (predictRequests st)\<rparr>)
      else st)"
| "step api valid usr st MakeAnotherPrediction =
     (if prediction st = None then st else st\<lparr>prediction := None\<rparr>)"

definition run ::
  "(string \<Rightarrow> string list) \<Rightarrow> (form_data \<Rightarrow> bool) \<Rightarrow> user_profile option \<Rightarrow>
   predictionForm \<Rightarrow> formEvent list \<Rightarrow> predictionForm" where
  "run api valid usr st evs = foldl (step api valid usr) st evs"

text \<open>The stage of the workflow that the component shows.\<close>

datatype stage = Editing | Submitting | Result

definition stage :: "predictionForm \<Rightarrow> stage" where
  "stage st = (if prediction st \<noteq> None then Result
               else if form_loading st then Submitting else Editing)"


section \<open>The session store: \<^verbatim>\<open>AuthProvider\<close> and \<^verbatim>\<open>MainApp\<close>\<close>

text \<open>
  The cells \<^verbatim>\<open>user\<close>, \<^verbatim>\<open>token\<close> and \<^verbatim>\<open>loading\<close> (here \<open>auth_loading\<close>), the entry
  \<^verbatim>\<open>'token'\<close> of \<^verbatim>\<open>localStorage\<close>, the header
  \<^verbatim>\<open>axios.defaults.headers.common['Authorization']\<close>, and the number of
  \<^verbatim>\<open>GET /auth/me\<close> requests that have not been answered.
\<close>

record session =
  user :: "user_profile option"
  token :: "string option"
  auth_loading :: bool
  localStorage_token :: "string option"
  authorization :: "string option"
  meRequests :: nat

text \<open>
  The body of \<^verbatim>\<open>useEffect(..., [token])\<close>.  A token is truthy when it is a non-empty
  string; \<^verbatim>\<open>fetchUser()\<close> issues the profile request and suspends.
\<close>

definition tokenEffectBody :: "session \<Rightarrow> session" where
  "tokenEffectBody st =
     (case token st of
        None \<Rightarrow> st\<lparr>auth_loading := False\<rparr>
      | Some t \<Rightarrow>
          if t \<noteq> [] then st\<lparr>authorization := Some (''Bearer '' @ t),
                                meRequests := Suc (meRequests st)\<rparr>
          else st\<lparr>auth_loading := False\<rparr>)"

text \<open>After a render the effect runs when \<^verbatim>\<open>token\<close> differs from its value \<open>old\<close> before.\<close>

definition tokenEffect :: "string option \<Rightarrow> session \<Rightarrow> session" where
  "tokenEffect old st = (if token st = old then st else tokenEffectBody st)"

text \<open>
  Mounting \<^verbatim>\<open>AuthProvider\<close>: the cells take their initial values, \<^verbatim>\<open>token\<close> from
  \<^verbatim>\<open>localStorage.getItem('token')\<close>, and the effect runs once.
\<close>

definition mountAuth :: "string option \<Rightarrow> session" where
  "mountAuth stored =
     tokenEffectBody
       \<lparr>user = None, token = stored, auth_loading = True,
        localStorage_token = stored, authorization = None, meRequests = 0\<rparr>"

text \<open>The continuations of \<^verbatim>\<open>fetchUser\<close>: the \<^verbatim>\<open>try\<close> or the \<^verbatim>\<open>catch\<close> block, then \<^verbatim>\<open>finally\<close>.\<close>

definition fetchUser_resolved :: "user_profile \<Rightarrow> session \<Rightarrow> session" where
  "fetchUser_resolved u st = st\<lparr>user := Some u, auth_loading := False\<rparr>"

definition fetchUser_rejected :: "session \<Rightarrow> session" where
  "fetchUser_rejected st =
     st\<lparr>localStorage_token := None, token := None, authorization := None,
        auth_loading := False\<rparr>"

text \<open>
  \<^verbatim>\<open>login\<close> and \<^verbatim>\<open>register\<close> after their \<^verbatim>\<open>await\<close>; a failed request throws to the
  caller before any cell is written.
\<close>

definition login_resolved :: "string \<Rightarrow> session \<Rightarrow> session" where
  "login_resolved access_token st =
     st\<lparr>localStorage_token := Some access_token, token := Some access_token,
        authorization := Some (''Bearer '' @ access_token)\<rparr>"

definition register_resolved :: "string \<Rightarrow> session \<Rightarrow> session" where
  "register_resolved access_token st =
     st\<lparr>localStorage_token := Some access_token, token := Some access_token,
        authorization := Some (''Bearer '' @ access_token)\<rparr>"

definition logout :: "session \<Rightarrow> session" where
  "logout st =
     st\<lparr>localStorage_token := None, token := None, user := None, authorization := None\<rparr>"

datatype authEvent =
    MeResolved user_profile
  | MeRejected
  | LoginResolved string
  | LoginRejected
  | RegisterResolved string
  | RegisterRejected
  | Logout

text \<open>One event, followed by the effect of the render it causes.\<close>

fun authStep :: "session \<Rightarrow> authEvent \<Rightarrow> session" where
  "authStep st (MeResolved u) =
     (if 0 < meRequests st
      then tokenEffect (token st) (fetchUser_resolved u (st\<lparr>meRequests := meRequests st - 1\<rparr>))
      else st)"
| "authStep st MeRejected =
     (if 0 < meRequests st
      then tokenEffect (token st) (fetchUser_rejected (st\<lparr>meRequests := meRequests st - 1\<rparr>))
      else st)"
| "authStep st (LoginResolved t) = tokenEffect (token st) (login_resolved t st)"
| "authStep st LoginRejected = st"
| "authStep st (RegisterResolved t) = tokenEffect (token st) (register_resolved t st)"
| "authStep st RegisterRejected = st"
| "authStep st Logout = tokenEffect (token st) (logout st)"

text \<open>What \<^verbatim>\<open>MainApp\<close> renders.\<close>

datatype screen = LoadingScreen | LoginForm | MainScreen

definition mainApp :: "session \<Rightarrow> screen" where
  "mainApp st = (if auth_loading st then LoadingScreen
                 else if user st = None then LoginForm else MainScreen)"

section \<open>The chat: \<^verbatim>\<open>ChatAssistant\<close>\<close>

datatype sender = User | Bot

record message =
  sender :: sender
  content :: string
  language :: string
  msg_recommendations :: "string list option"

text \<open>
  The cells of the component (\<open>chat_loading\<close> is \<^verbatim>\<open>loading\<close>), its toasts, and the
  \<^verbatim>\<open>POST /chat\<close> requests awaiting an answer, each with the \<^verbatim>\<open>newMessage\<close> and
  \<^verbatim>\<open>selectedLanguage\<close> its closure captured.
\<close>

record chat =
  messages :: "message list"
  newMessage :: string
  selectedLanguage :: string
  chat_loading :: bool
  chat_toasts :: "toast list"
  chatRequests :: "(string \<times> string) list"

definition initialChat :: chat where
  "initialChat =
     \<lparr>messages = [\<lparr>sender = Bot,
                    content = ''Hello! I'' @ [CHR 0x27] @ ''m your farming assistant. How can I help you today?'',
                    language = ''en'', msg_recommendations = None\<rparr>],
      newMessage = [], selectedLanguage = ''en'', chat_loading = False,
      chat_toasts = [], chatRequests = []\<rparr>"

text \<open>\<^verbatim>\<open>sendMessage\<close> up to its \<^verbatim>\<open>await\<close>.\<close>

definition sendMessage :: "chat \<Rightarrow> chat" where
  "sendMessage st =
     (if trim (newMessage st) = [] then st
      else st\<lparr>messages := messages st @
                  [\<lparr>sender = User, content = newMessage st,
                    language = selectedLanguage st, msg_recommendations = None\<rparr>],
              chat_loading := True,
              chatRequests := chatRequests st @ [(newMessage st, selectedLanguage st)]\<rparr>)"

text \<open>
  The continuations: the bot message carries the language the closure captured;
  \<^verbatim>\<open>finally\<close> resets \<^verbatim>\<open>loading\<close> and \<^verbatim>\<open>newMessage\<close>.
\<close>

definition sendMessage_resolved :: "string \<Rightarrow> string \<Rightarrow> string list option \<Rightarrow> chat \<Rightarrow> chat" where
  "sendMessage_resolved lang response recs st =
     st\<lparr>messages := messages st @
           [\<lparr>sender = Bot, content = response, language = lang, msg_recommendations = recs\<rparr>],
        chat_loading := False,
        newMessage := []\<rparr>"

definition sendMessage_rejected :: "chat \<Rightarrow> chat" where
  "sendMessage_rejected st =
     st\<lparr>chat_toasts := chat_toasts st @ [errorToast ''Failed to get response from assistant''],
        chat_loading := False,
        newMessage := []\<rparr>"

definition quickQuestions :: "string list" where
  "quickQuestions =
     [''How often should I water my crops?'',
      ''What fertilizer is best for rice?'',
      ''How to control pests naturally?'',
      ''When to harvest wheat?'',
      ''Best irrigation practices'',
      ''Soil pH management'']"

text \<open>
  Typing, pressing Enter without Shift and clicking the send button go through the
  text area (disabled while \<^verbatim>\<open>loading\<close>) and the button (disabled while \<^verbatim>\<open>loading\<close> or
  when the trimmed text is empty).  The quick-question buttons and the language
  select are never disabled.
\<close>

datatype chatEvent =
    Type string
  | PressEnter
  | ClickSend
  | QuickQuestion nat
  | SelectLanguage string
  | ChatResolved nat string "string list option"
  | ChatRejected nat

fun chatStep :: "chat \<Rightarrow> chatEvent \<Rightarrow> chat" where
  "chatStep st (Type v) = (if chat_loading st then st else st\<lparr>newMessage := v\<rparr>)"
| "chatStep st PressEnter = (if chat_loading st then st else sendMessage st)"
| "chatStep st ClickSend =
     (if chat_loading st \<or> trim (newMessage st) = [] then st else sendMessage st)"
| "chatStep st (QuickQuestion i) =
     (if i < length quickQuestions then st\<lparr>newMessage := quickQuestions ! i\<rparr> else st)"
| "chatStep st (SelectLanguage l) = st\<lparr>selectedLanguage := l\<rparr>"
| "chatStep st (ChatResolved i response recs) =
     (if i < length (chatRequests st)
      then sendMessage_resolved (snd (chatRequests st ! i)) response recs
             (st\<lparr>chatRequests := answered i (chatRequests st)\<rparr>)
      else st)"
| "chatStep st (ChatRejected i) =
     (if i < length (chatRequests st)
      then sendMessage_rejected (st\<lparr>chatRequests := answered i (chatRequests st)\<rparr>)
      else st)"

definition chatRun :: "chat \<Rightarrow> chatEvent list \<Rightarrow> chat" where
  "chatRun st evs = foldl chatStep st evs"

section \<open>Notions of the specification\<close>

text \<open>
  The fields the specification calls required, and its condition for enabling
  submission: no submission in flight, every required field non-empty, and
  \<^verbatim>\<open>farm_size\<close> parsing as a positive number.
\<close>

definition requiredFields :: "field list" where
  "requiredFields =
     [State, Crop_name, Season, Soil_type, Irrigation_source, Irrigation_frequency, Farm_size]"

definition spec_submitEnabled :: "predictionForm \<Rightarrow> bool" where
  "spec_submitEnabled st =
     (\<not> form_loading st \<and>
      list_all (\<lambda>f. getField f (formData st) \<noteq> []) requiredFields \<and>
      isPositive (parseFloat (farm_size (formData st))))"

text \<open>
  Counting along a run of the chat.  A send attempt is pressing Enter or clicking the
  send button; it is accepted when no request is outstanding and the text is not
  blank.  A response is successful when it answers an outstanding request.
\<close>

fun sendAttempt :: "chatEvent \<Rightarrow> bool" where
  "sendAttempt PressEnter = True"
| "sendAttempt ClickSend = True"
| "sendAttempt _ = False"

definition sendAccepted :: "chat \<Rightarrow> chatEvent \<Rightarrow> bool" where
  "sendAccepted st ev = (sendAttempt ev \<and> \<not> chat_loading st \<and> trim (newMessage st) \<noteq> [])"

fun successfulResponse :: "chat \<Rightarrow> chatEvent \<Rightarrow> bool" where
  "successfulResponse st (ChatResolved i response recs) = (i < length (chatRequests st))"
| "successfulResponse st _ = False"

fun accepted :: "chat \<Rightarrow> chatEvent list \<Rightarrow> nat" where
  "accepted st [] = 0"
| "accepted st (ev # evs) = (if sendAccepted st ev then 1 else 0) + accepted (chatStep st ev) evs"

fun rejected :: "chat \<Rightarrow> chatEvent list \<Rightarrow> nat" where
  "rejected st [] = 0"
| "rejected st (ev # evs) =
     (if sendAttempt ev \<and> \<not> sendAccepted st ev then 1 else 0) + rejected (chatStep st ev) evs"

fun succeeded :: "chat \<Rightarrow> chatEvent list \<Rightarrow> nat" where
  "succeeded st [] = 0"
| "succeeded st (ev # evs) =
     (if successfulResponse st ev then 1 else 0) + succeeded (chatStep st ev) evs"

section \<open>Sample data\<close>

definition sampleApi :: "string \<Rightarrow> string list" where
  "sampleApi s = (if s = ''Odisha'' then [''Cuttack'', ''Puri'']
                  else if s = ''Bihar'' then [''Patna'', ''Gaya'']
                  else [])"

text \<open>
  A validation verdict for the sample runs: \<^verbatim>\<open>farm_size\<close> is present and
  \<^verbatim>\<open>ph_level\<close>, when given, lies between 0 and 14; every value counts as matching
  its step.
\<close>

definition sampleValid :: "form_data \<Rightarrow> bool" where
  "sampleValid fd =
     (farm_size fd \<noteq> [] \<and>
      (ph_level fd = [] \<or>
       (case parseFloat (ph_level fd) of
          Num q \<Rightarrow> 0 \<le> q \<and> q \<le> 14
        | NegZero \<Rightarrow> True
        | _ \<Rightarrow> False)))"

definition sampleUser :: user_profile where
  "sampleUser = \<lparr>id' = ''u-17'', email = ''asha@example.org'', name = ''Asha'', phone = []\<rparr>"

definition sampleResult :: predictionResult where
  "sampleResult =
     \<lparr>predicted_yield = Num 4, yield_unit = ''tonnes/hectare'', district_average = Num 3,
      comparison_percentage = Num 25, confidence_score = Num 80,
      recommendations = [''Irrigate regularly'']\<rparr>"

text \<open>
  The scenario of the specification: the seven required fields are filled in, with
  \<^verbatim>\<open>farm_size\<close> as given.
\<close>

definition fillRequired :: "string \<Rightarrow> formEvent list" where
  "fillRequired sz =
     [InputChange State ''Odisha'', InputChange Crop_name ''Rice'',
      InputChange Season ''Kharif'', InputChange Soil_type ''Alluvial'',
      InputChange Irrigation_source ''Canal'', InputChange Irrigation_frequency ''Regularly'',
      InputChange Farm_size sz]"

section \<open>An invariant of the prediction form\<close>

text \<open>
  \<^verbatim>\<open>loading\<close> is set exactly while a prediction request is outstanding, no result is
  held while one is, and at most one request is outstanding.
\<close>

definition submissionInv :: "predictionForm \<Rightarrow> bool" where
  "submissionInv st =
     (form_loading st = (predictRequests st \<noteq> []) \<and>
      (predictRequests st = [] \<or> prediction st = None) \<and>
      length (predictRequests st) \<le> 1)"

section \<open>Auxiliary facts\<close>

lemma run_Nil: "run api valid usr st [] = st"
  by (simp add: run_def)

lemma run_Cons: "run api valid usr st (ev # evs) = run api valid usr (step api valid usr st ev) evs"
  by (simp add: run_def)

lemma run_append: "run api valid usr st (xs @ ys) = run api valid usr (run api valid usr st xs) ys"
  by (simp add: run_def)

lemma chatRun_Nil: "chatRun st [] = st"
  by (simp add: chatRun_def)

lemma chatRun_Cons: "chatRun st (ev # evs) = chatRun (chatStep st ev) evs"
  by (simp add: chatRun_def)

lemma answered_last: "answered (length xs) (xs @ [x]) = xs"
  by (simp add: answered_def)

lemma parseFloat_empty: "parseFloat [] = NaN"
  by (simp add: parseFloat_def readSign_def)

lemmas form_defs =
  submitDisabled_def districtsEffect_def fetchDistricts_def fetchDistricts_resolved_def
  fetchDistricts_rejected_def handleSubmit_def handleSubmit_resolved_def
  handleSubmit_rejected_def answered_def stage_def initialForm_def initialFormData_def
  sampleValid_def errorToast_def successToast_def Let_def

lemmas parse_defs =
  parseFloat_def readSign_def isWhiteSpace_def isDigit_def digitsVal_def digitVal_def
  readExponent_def roundBinary64_def roundHalfEven_def pow2_def floorLog2.simps Let_def

lemmas auth_defs =
  mountAuth_def tokenEffectBody_def tokenEffect_def fetchUser_resolved_def
  fetchUser_rejected_def login_resolved_def register_resolved_def logout_def mainApp_def

lemmas chat_defs =
  sendMessage_def sendMessage_resolved_def sendMessage_rejected_def answered_def
  initialChat_def sendAccepted_def

lemmas trim_defs = trim_def isWhiteSpace_def

text \<open>Only a successful district response writes \<^verbatim>\<open>districts\<close>.\<close>

lemma districts_other_event:
  "\<forall>j. ev \<noteq> DistrictsResolved j \<Longrightarrow> districts (step api valid usr st ev) = districts st"
  by (cases ev) (auto simp: form_defs split: sum.splits)

lemma districts_other_events:
  "\<forall>ev \<in> set evs. \<forall>j. ev \<noteq> DistrictsResolved j \<Longrightarrow>
   districts (run api valid usr st evs) = districts st"
  by (induction evs arbitrary: st) (simp_all add: run_Nil run_Cons districts_other_event)

text \<open>The effect on \<^verbatim>\<open>token\<close> writes the header, the request count and \<^verbatim>\<open>loading\<close> only.\<close>

lemma tokenEffect_keeps:
  "token (tokenEffect old s) = token s"
  "localStorage_token (tokenEffect old s) = localStorage_token s"
  "user (tokenEffect old s) = user s"
  by (simp_all add: tokenEffect_def tokenEffectBody_def split: option.splits)

text \<open>One step of the chat adds a user turn per accepted send and a bot turn per success.\<close>

lemma messages_chatStep:
  "length (messages (chatStep st ev)) =
     length (messages st) + (if sendAccepted st ev then 1 else 0) +
       (if successfulResponse st ev then 1 else 0)"
  by (cases ev) (auto simp: chat_defs)

lemma messages_chatRun:
  "length (messages (chatRun st evs)) = length (messages st) + accepted st evs + succeeded st evs"
  by (induction evs arbitrary: st) (simp_all add: chatRun_Nil chatRun_Cons messages_chatStep)

lemma user_turns_chatStep:
  "length (filter (\<lambda>m. sender m = User) (messages (chatStep st ev))) =
     length (filter (\<lambda>m. sender m = User) (messages st)) + (if sendAccepted st ev then 1 else 0)"
  by (cases ev) (auto simp: chat_defs)

lemma user_turns_chatRun:
  "length (filter (\<lambda>m. sender m = User) (messages (chatRun st evs))) =
     length (filter (\<lambda>m. sender m = User) (messages st)) + accepted st evs"
  by (induction evs arbitrary: st) (simp_all add: chatRun_Nil chatRun_Cons user_turns_chatStep)

lemma rejected_send_noop:
  "sendAttempt ev \<Longrightarrow> \<not> sendAccepted st ev \<Longrightarrow> chatStep st ev = st"
  by (cases ev) (auto simp: chat_defs)

text \<open>
  Reachable chat states have at most one request outstanding, and \<^verbatim>\<open>loading\<close> is set
  exactly while there is one.
\<close>

lemma one_outstanding_step:
  "chat_loading st = (chatRequests st \<noteq> []) \<Longrightarrow> length (chatRequests st) \<le> 1 \<Longrightarrow>
   chat_loading (chatStep st ev) = (chatRequests (chatStep st ev) \<noteq> []) \<and>
   length (chatRequests (chatStep st ev)) \<le> 1"
  by (cases ev) (auto simp: chat_defs)

lemma one_outstanding:
  "chat_loading (chatRun initialChat evs) = (chatRequests (chatRun initialChat evs) \<noteq> []) \<and>
   length (chatRequests (chatRun initialChat evs)) \<le> 1"
proof -
  have "chat_loading (chatRun st evs) = (chatRequests (chatRun st evs) \<noteq> []) \<and>
        length (chatRequests (chatRun st evs)) \<le> 1"
    if "chat_loading st = (chatRequests st \<noteq> [])" "length (chatRequests st) \<le> 1" for st
    using that
  proof (induction evs arbitrary: st)
    case Nil
    then show ?case by (simp add: chatRun_Nil)
  next
    case (Cons ev evs)
    from one_outstanding_step[OF Cons.prems] Cons.IH[of "chatStep st ev"]
    show ?case by (simp add: chatRun_Cons)
  qed
  then show ?thesis by (simp add: initialChat_def)
qed

text \<open>
  The invariant holds in every state the form reaches: a submission goes through the
  enabled button only, and the button is disabled while \<^verbatim>\<open>loading\<close> is set.
\<close>

lemma answered_single: "i < length xs \<Longrightarrow> length xs \<le> 1 \<Longrightarrow> answered i xs = []"
  by (cases xs) (auto simp: answered_def)

lemma submissionInv_step:
  assumes "submissionInv st"
  shows "submissionInv (step api valid usr st ev)"
proof (cases ev)
  case (InputChange f v)
  with assms show ?thesis
    by (auto simp: submissionInv_def districtsEffect_def fetchDistricts_def)
next
  case Submit
  show ?thesis
  proof (cases "prediction st \<noteq> None \<or> submitDisabled st \<or> \<not> valid (formData st)")
    case True
    with Submit assms show ?thesis by simp
  next
    case False
    then have "\<not> form_loading st" "prediction st = None"
      by (simp_all add: submitDisabled_def)
    with assms have "predictRequests st = []"
      by (simp add: submissionInv_def)
    with Submit False \<open>prediction st = None\<close> show ?thesis
      by (auto simp: submissionInv_def handleSubmit_def handleSubmit_rejected_def Let_def
          split: sum.splits)
  qed
next
  case (DistrictsResolved i)
  with assms show ?thesis
    by (simp add: submissionInv_def fetchDistricts_resolved_def)
next
  case (DistrictsRejected i)
  with assms show ?thesis
    by (simp add: submissionInv_def fetchDistricts_rejected_def)
next
  case (PredictResolved i r)
  with assms show ?thesis
    by (simp add: submissionInv_def handleSubmit_resolved_def answered_single)
next
  case (PredictRejected i d)
  with assms show ?thesis
    by (simp add: submissionInv_def handleSubmit_rejected_def answered_single)
next
  case MakeAnotherPrediction
  with assms show ?thesis
    by (auto simp: submissionInv_def)
qed

lemma submissionInv_run:
  "submissionInv st \<Longrightarrow> submissionInv (run api valid usr st evs)"
  by (induction evs arbitrary: st) (simp_all add: run_Nil run_Cons submissionInv_step)

lemma submissionInv_initial: "submissionInv (run api valid usr initialForm evs)"
  by (rule submissionInv_run) (simp add: submissionInv_def initialForm_def)

lemma pending_is_submitting:
  "predictRequests (run api valid usr initialForm evs) \<noteq> [] \<Longrightarrow>
   stage (run api valid usr initialForm evs) = Submitting \<and>
   submitDisabled (run api valid usr initialForm evs)"
  using submissionInv_initial[of api valid usr evs]
  by (auto simp: submissionInv_def stage_def submitDisabled_def)


lemma failed_submission_returns_to_editing:
  assumes "i < length (predictRequests (run api valid usr initialForm evs))"
  shows "stage (step api valid usr (run api valid usr initialForm evs) (PredictRejected i detail)) =
           Editing"
proof -
  from assms have "predictRequests (run api valid usr initialForm evs) \<noteq> []" by auto
  with submissionInv_initial[of api valid usr evs]
  have "prediction (run api valid usr initialForm evs) = None"
    by (auto simp: submissionInv_def)
  with assms show ?thesis
    by (simp add: stage_def handleSubmit_rejected_def)
qed

section \<open>District list and state selection\<close>

text \<open>
  C1 (as the code has it).  No district response is discarded: a successful response
  to the \<open>i\<close>-th pending request replaces \<^verbatim>\<open>districts\<close> with the list of the state that
  request was issued for, whatever state is selected by then, and nothing but a later
  successful response changes the list afterwards.  So after all fetches settle the
  visible list is that of the request whose response arrived last; it is the list of
  the most recently selected state only when that state's response is the last to
  arrive.
\<close>

theorem districts_last_response_wins:
  assumes "i < length (districtRequests (run api valid usr st evs))"
    and "\<forall>ev \<in> set evs'. \<forall>j. ev \<noteq> DistrictsResolved j"
  shows "districts (run api valid usr st (evs @ DistrictsResolved i # evs')) =
           api (districtRequests (run api valid usr st evs) ! i)"
proof -
  have "districts (step api valid usr (run api valid usr st evs) (DistrictsResolved i)) =
          api (districtRequests (run api valid usr st evs) ! i)"
    using assms(1) by (simp add: fetchDistricts_resolved_def)
  then show ?thesis
    using assms(2) by (simp add: run_append run_Cons districts_other_events)
qed

text \<open>
  Odisha, then Bihar; Odisha's response arrives, then Bihar's, then another field is
  edited: the list is Bihar's.
\<close>

theorem districts_last_response_wins_witness:
  "districts (run sampleApi sampleValid (Some sampleUser) initialForm
      ([InputChange State ''Odisha'', InputChange State ''Bihar'', DistrictsResolved 0] @
        DistrictsResolved 0 # [InputChange Village ''Konark''])) = [''Patna'', ''Gaya'']"
proof -
  have a: "districtRequests (run sampleApi sampleValid (Some sampleUser) initialForm
      [InputChange State ''Odisha'', InputChange State ''Bihar'', DistrictsResolved 0]) = [''Bihar'']"
    by (simp add: run_Cons run_Nil form_defs)
  have b: "\<forall>ev \<in> set [InputChange Village ''Konark'']. \<forall>j. ev \<noteq> DistrictsResolved j"
    by simp
  have "0 < length (districtRequests (run sampleApi sampleValid (Some sampleUser) initialForm
      [InputChange State ''Odisha'', InputChange State ''Bihar'', DistrictsResolved 0]))"
    by (simp add: a)
  from districts_last_response_wins[OF this b] show ?thesis
    by (simp add: a sampleApi_def)
qed

text \<open>
  Against C1 as stated: Odisha is selected, then Bihar while Odisha's request is
  pending; Bihar's response arrives first and Odisha's second.  Every fetch has
  settled, Bihar is selected, and the list shown is Odisha's.
\<close>

theorem stale_district_response_applied:
  "state (formData (run sampleApi sampleValid (Some sampleUser) initialForm
      [InputChange State ''Odisha'', InputChange State ''Bihar'',
       DistrictsResolved 1, DistrictsResolved 0])) = ''Bihar'' \<and>
   districtRequests (run sampleApi sampleValid (Some sampleUser) initialForm
      [InputChange State ''Odisha'', InputChange State ''Bihar'',
       DistrictsResolved 1, DistrictsResolved 0]) = [] \<and>
   districts (run sampleApi sampleValid (Some sampleUser) initialForm
      [InputChange State ''Odisha'', InputChange State ''Bihar'',
       DistrictsResolved 1, DistrictsResolved 0]) = sampleApi ''Odisha'' \<and>
   sampleApi ''Odisha'' \<noteq> sampleApi ''Bihar''"
  by (simp add: run_Cons run_Nil form_defs sampleApi_def)

text \<open>
  C2 (as the code has it).  Changing the state field through \<^verbatim>\<open>handleInputChange\<close>
  sets that field and nothing else: the selected district and every other field keep
  their values, and the district list is not cleared.  A request for the new state's
  districts is issued when the new value differs from the old one and is not empty;
  when it is empty nothing is requested.
\<close>

theorem state_change_keeps_district_selection:
  assumes "prediction st = None"
  shows "state (formData (step api valid usr st (InputChange State v))) = v \<and>
         (\<forall>f. f \<noteq> State \<longrightarrow>
            getField f (formData (step api valid usr st (InputChange State v))) =
              getField f (formData st)) \<and>
         districts (step api valid usr st (InputChange State v)) = districts st \<and>
         districtRequests (step api valid usr st (InputChange State v)) =
           (if v \<noteq> state (formData st) \<and> v \<noteq> [] then districtRequests st @ [v]
            else districtRequests st)"
proof -
  have "getField f (formData (step api valid usr st (InputChange State v))) = getField f (formData st)"
    if "f \<noteq> State" for f
    using that assms by (cases f) (simp_all add: districtsEffect_def fetchDistricts_def)
  then show ?thesis
    using assms by (simp add: districtsEffect_def fetchDistricts_def)
qed

text \<open>With Cuttack chosen in Odisha, the state is changed to Bihar.\<close>

theorem state_change_keeps_district_selection_witness:
  "prediction (run sampleApi sampleValid (Some sampleUser) initialForm
      [InputChange State ''Odisha'', DistrictsResolved 0, InputChange District ''Cuttack'']) = None \<and>
   getField District (formData (step sampleApi sampleValid (Some sampleUser)
      (run sampleApi sampleValid (Some sampleUser) initialForm
         [InputChange State ''Odisha'', DistrictsResolved 0, InputChange District ''Cuttack''])
      (InputChange State ''Bihar''))) = ''Cuttack'' \<and>
   districtRequests (step sampleApi sampleValid (Some sampleUser)
      (run sampleApi sampleValid (Some sampleUser) initialForm
         [InputChange State ''Odisha'', DistrictsResolved 0, InputChange District ''Cuttack''])
      (InputChange State ''Bihar'')) = [''Bihar'']"
proof -
  let ?st = "run sampleApi sampleValid (Some sampleUser) initialForm
      [InputChange State ''Odisha'', DistrictsResolved 0, InputChange District ''Cuttack'']"
  have p: "prediction ?st = None"
    by (simp add: run_Cons run_Nil form_defs)
  have d: "getField District (formData ?st) = ''Cuttack''"
    by (simp add: run_Cons run_Nil form_defs)
  have s: "state (formData ?st) = ''Odisha''"
    by (simp add: run_Cons run_Nil form_defs)
  have r: "districtRequests ?st = []"
    by (simp add: run_Cons run_Nil form_defs)
  have "District \<noteq> State" by simp
  with state_change_keeps_district_selection[OF p, where api = sampleApi and valid = sampleValid
      and usr = "Some sampleUser" and v = "''Bihar''"]
  have "getField District (formData (step sampleApi sampleValid (Some sampleUser) ?st
            (InputChange State ''Bihar''))) = getField District (formData ?st)"
    and "districtRequests (step sampleApi sampleValid (Some sampleUser) ?st (InputChange State ''Bihar'')) =
           (if ''Bihar'' \<noteq> state (formData ?st) \<and> ''Bihar'' \<noteq> [] then districtRequests ?st @ [''Bihar'']
            else districtRequests ?st)"
    by blast+
  with p d s r show ?thesis by simp
qed

text \<open>
  Against C2 as stated: Cuttack is chosen in Odisha.  When the state is emptied, and
  likewise when it is changed to Bihar and Bihar's districts have arrived, the
  selected district is still Cuttack; after emptying, the list is still Odisha's and
  no request is pending that could replace it.
\<close>

theorem district_survives_state_change:
  "district (formData (run sampleApi sampleValid (Some sampleUser) initialForm
      [InputChange State ''Odisha'', DistrictsResolved 0, InputChange District ''Cuttack'',
       InputChange State []])) = ''Cuttack'' \<and>
   districts (run sampleApi sampleValid (Some sampleUser) initialForm
      [InputChange State ''Odisha'', DistrictsResolved 0, InputChange District ''Cuttack'',
       InputChange State []]) = [''Cuttack'', ''Puri''] \<and>
   districtRequests (run sampleApi sampleValid (Some sampleUser) initialForm
      [InputChange State ''Odisha'', DistrictsResolved 0, InputChange District ''Cuttack'',
       InputChange State []]) = [] \<and>
   district (formData (run sampleApi sampleValid (Some sampleUser) initialForm
      [InputChange State ''Odisha'', DistrictsResolved 0, InputChange District ''Cuttack'',
       InputChange State ''Bihar'', DistrictsResolved 0])) = ''Cuttack'' \<and>
   districts (run sampleApi sampleValid (Some sampleUser) initialForm
      [InputChange State ''Odisha'', DistrictsResolved 0, InputChange District ''Cuttack'',
       InputChange State ''Bihar'', DistrictsResolved 0]) = [''Patna'', ''Gaya'']"
  by (simp add: run_Cons run_Nil form_defs sampleApi_def)

section \<open>Submitting the prediction form\<close>

text \<open>
  C3 (as the code has it).  The submit button is enabled if and only if no submission
  is in flight and each of the seven required fields is a non-empty string, whatever
  the optional fields hold; while a submission is in flight (\<^verbatim>\<open>loading\<close> is set, as it
  is in every reachable state with a request outstanding) it is disabled, and a
  submit through the disabled button changes nothing.  The value of \<^verbatim>\<open>farm_size\<close> is
  not examined: the condition of the specification, which also asks for a positive
  number, implies that the button is enabled but is not implied by it.
\<close>

theorem submit_enabled_iff_required_filled:
  "((\<not> submitDisabled st) =
      (\<not> form_loading st \<and> (\<forall>f \<in> set requiredFields. getField f (formData st) \<noteq> []))) \<and>
   (form_loading st \<longrightarrow> submitDisabled st) \<and>
   (spec_submitEnabled st \<longrightarrow> \<not> submitDisabled st) \<and>
   (submitDisabled st \<longrightarrow> step api valid usr st Submit = st) \<and>
   (predictRequests (run api valid usr initialForm evs) \<noteq> [] \<longrightarrow>
      submitDisabled (run api valid usr initialForm evs))"
proof -
  have "(\<not> submitDisabled st) =
      (\<not> form_loading st \<and> (\<forall>f \<in> set requiredFields. getField f (formData st) \<noteq> []))"
    by (auto simp: submitDisabled_def requiredFields_def)
  moreover have "form_loading st \<longrightarrow> submitDisabled st"
    by (simp add: submitDisabled_def)
  moreover have "spec_submitEnabled st \<longrightarrow> \<not> submitDisabled st"
    by (auto simp: submitDisabled_def requiredFields_def spec_submitEnabled_def)
  moreover have "submitDisabled st \<longrightarrow> step api valid usr st Submit = st"
    by simp
  moreover have "predictRequests (run api valid usr initialForm evs) \<noteq> [] \<longrightarrow>
      submitDisabled (run api valid usr initialForm evs)"
    using pending_is_submitting[of api valid usr evs] by blast
  ultimately show ?thesis by blast
qed

text \<open>
  The scenario of the specification with \<^verbatim>\<open>farm_size\<close> 2.5, the same form while a
  submission is in flight, and the blank form.
\<close>

theorem submit_enabled_iff_required_filled_witness:
  "spec_submitEnabled (run sampleApi sampleValid (Some sampleUser) initialForm (fillRequired ''2.5'')) \<and>
   \<not> submitDisabled (run sampleApi sampleValid (Some sampleUser) initialForm (fillRequired ''2.5'')) \<and>
   submitDisabled
     ((run sampleApi sampleValid (Some sampleUser) initialForm (fillRequired ''2.5''))\<lparr>form_loading := True\<rparr>) \<and>
   submitDisabled initialForm \<and>
   step sampleApi sampleValid (Some sampleUser) initialForm Submit = initialForm \<and>
   submitDisabled (run sampleApi sampleValid (Some sampleUser) initialForm (fillRequired ''2.5'' @ [Submit]))"
proof -
  let ?st = "run sampleApi sampleValid (Some sampleUser) initialForm (fillRequired ''2.5'')"
  have q: "predictRequests
      (run sampleApi sampleValid (Some sampleUser) initialForm (fillRequired ''2.5'' @ [Submit])) \<noteq> []"
    by (simp add: run_Cons run_Nil fillRequired_def form_defs requestData_def)
  have p: "parseFloat ''2.5'' = Num (5 / 2)"
    by (simp add: parse_defs)
  have f: "formData ?st =
     initialFormData\<lparr>state := ''Odisha'', crop_name := ''Rice'', season := ''Kharif'',
       soil_type := ''Alluvial'', irrigation_source := ''Canal'',
       irrigation_frequency := ''Regularly'', farm_size := ''2.5''\<rparr>"
    by (simp add: run_Cons run_Nil fillRequired_def form_defs)
  have l: "\<not> form_loading ?st"
    by (simp add: run_Cons run_Nil fillRequired_def form_defs)
  have s: "spec_submitEnabled ?st"
    by (simp add: spec_submitEnabled_def requiredFields_def f l p initialFormData_def)
  have d: "submitDisabled initialForm"
    using submit_enabled_iff_required_filled[where st = initialForm]
    by (simp add: requiredFields_def initialForm_def initialFormData_def)
  from s d q submit_enabled_iff_required_filled[where st = ?st and api = sampleApi
      and valid = sampleValid and usr = "Some sampleUser"
      and evs = "fillRequired ''2.5'' @ [Submit]"]
    submit_enabled_iff_required_filled[where st = "?st\<lparr>form_loading := True\<rparr>"]
    submit_enabled_iff_required_filled[where st = initialForm and api = sampleApi
      and valid = sampleValid and usr = "Some sampleUser"]
  show ?thesis by simp
qed

text \<open>
  Against C3 as stated: with the required fields filled in and \<^verbatim>\<open>farm_size\<close> set to
  \<^verbatim>\<open>"0"\<close>, no submission is in flight and the button is enabled, although the field
  does not parse as a positive number.
\<close>

theorem submit_enabled_with_zero_farm_size:
  "\<not> form_loading (run sampleApi sampleValid (Some sampleUser) initialForm (fillRequired ''0'')) \<and>
   \<not> submitDisabled (run sampleApi sampleValid (Some sampleUser) initialForm (fillRequired ''0'')) \<and>
   parseFloat (farm_size (formData
      (run sampleApi sampleValid (Some sampleUser) initialForm (fillRequired ''0'')))) = Num 0 \<and>
   \<not> isPositive (parseFloat (farm_size (formData
      (run sampleApi sampleValid (Some sampleUser) initialForm (fillRequired ''0'')))))"
  by (simp add: run_Cons run_Nil fillRequired_def form_defs parse_defs)

text \<open>
  C4.  When a submission goes through, the request body that \<^verbatim>\<open>handleSubmit\<close> posts
  is the assembled \<^verbatim>\<open>requestData\<close>, and in it \<^verbatim>\<open>soil_inputs.ph_level\<close> is \<^verbatim>\<open>null\<close> when
  the field is the empty string, so it is neither 0 nor \<open>NaN\<close> nor any other number,
  and it is the float parsed from the field when the field is not empty; likewise
  \<^verbatim>\<open>soil_inputs.organic_carbon\<close>.
\<close>

theorem blank_optional_numbers_sent_as_null:
  assumes "prediction st = None" and "\<not> submitDisabled st" and "valid (formData st)"
  shows "\<exists>body.
           predictRequests (step api valid (Some u) st Submit) = predictRequests st @ [body] \<and>
           requestData (Some u) (formData st) = Inr body \<and>
           (ph_level (formData st) = [] \<longrightarrow>
              jpath [''soil_inputs'', ''ph_level''] body = Some JNull \<and>
              (\<forall>x. jpath [''soil_inputs'', ''ph_level''] body \<noteq> Some (JNumber x))) \<and>
           (ph_level (formData st) \<noteq> [] \<longrightarrow>
              jpath [''soil_inputs'', ''ph_level''] body =
                Some (JNumber (parseFloat (ph_level (formData st))))) \<and>
           (organic_carbon (formData st) = [] \<longrightarrow>
              jpath [''soil_inputs'', ''organic_carbon''] body = Some JNull \<and>
              (\<forall>x. jpath [''soil_inputs'', ''organic_carbon''] body \<noteq> Some (JNumber x))) \<and>
           (organic_carbon (formData st) \<noteq> [] \<longrightarrow>
              jpath [''soil_inputs'', ''organic_carbon''] body =
                Some (JNumber (parseFloat (organic_carbon (formData st)))))"
proof -
  obtain body where b: "requestData (Some u) (formData st) = Inr body"
    by (simp add: requestData_def)
  from assms b
  have "predictRequests (step api valid (Some u) st Submit) = predictRequests st @ [body]"
    by (simp add: handleSubmit_def)
  moreover from b
  have "(ph_level (formData st) = [] \<longrightarrow>
              jpath [''soil_inputs'', ''ph_level''] body = Some JNull \<and>
              (\<forall>x. jpath [''soil_inputs'', ''ph_level''] body \<noteq> Some (JNumber x))) \<and>
           (ph_level (formData st) \<noteq> [] \<longrightarrow>
              jpath [''soil_inputs'', ''ph_level''] body =
                Some (JNumber (parseFloat (ph_level (formData st))))) \<and>
           (organic_carbon (formData st) = [] \<longrightarrow>
              jpath [''soil_inputs'', ''organic_carbon''] body = Some JNull \<and>
              (\<forall>x. jpath [''soil_inputs'', ''organic_carbon''] body \<noteq> Some (JNumber x))) \<and>
           (organic_carbon (formData st) \<noteq> [] \<longrightarrow>
              jpath [''soil_inputs'', ''organic_carbon''] body =
                Some (JNumber (parseFloat (organic_carbon (formData st)))))"
    by (auto simp: requestData_def)
  ultimately show ?thesis
    using b by blast
qed

text \<open>
  The scenario of the specification with \<^verbatim>\<open>ph_level\<close> left blank and
  \<^verbatim>\<open>organic_carbon\<close> 0.75, submitted.
\<close>

theorem blank_optional_numbers_sent_as_null_witness:
  "\<exists>body.
     predictRequests (run sampleApi sampleValid (Some sampleUser) initialForm
        (fillRequired ''2.5'' @ [InputChange Organic_carbon ''0.75'', Submit])) = [body] \<and>
     jpath [''soil_inputs'', ''ph_level''] body = Some JNull \<and>
     jpath [''soil_inputs'', ''organic_carbon''] body = Some (JNumber (Num (3 / 4)))"
proof -
  let ?st = "run sampleApi sampleValid (Some sampleUser) initialForm
        (fillRequired ''2.5'' @ [InputChange Organic_carbon ''0.75''])"
  have p: "prediction ?st = None" and d: "\<not> submitDisabled ?st"
    and v: "sampleValid (formData ?st)" and r: "predictRequests ?st = []"
    and h: "ph_level (formData ?st) = []" and o: "organic_carbon (formData ?st) = ''0.75''"
    by (simp_all add: run_Cons run_Nil fillRequired_def form_defs)
  have f: "parseFloat ''0.75'' = Num (3 / 4)"
    by (simp add: parse_defs)
  have s: "run sampleApi sampleValid (Some sampleUser) initialForm
        (fillRequired ''2.5'' @ [InputChange Organic_carbon ''0.75'', Submit]) =
      step sampleApi sampleValid (Some sampleUser) ?st Submit"
    by (simp only: run_append run_Cons run_Nil)
  from blank_optional_numbers_sent_as_null[where valid = sampleValid and api = sampleApi
      and u = sampleUser, OF p d v]
  obtain body where
    "predictRequests (step sampleApi sampleValid (Some sampleUser) ?st Submit) =
       predictRequests ?st @ [body]"
    and "ph_level (formData ?st) = [] \<longrightarrow> jpath [''soil_inputs'', ''ph_level''] body = Some JNull"
    and "organic_carbon (formData ?st) \<noteq> [] \<longrightarrow>
           jpath [''soil_inputs'', ''organic_carbon''] body =
             Some (JNumber (parseFloat (organic_carbon (formData ?st))))"
    by blast
  with r h o f s show ?thesis
    by simp
qed

text \<open>
  C9.  A request body can be assembled only when a user is present, and then it has
  the key \<^verbatim>\<open>user_id\<close> holding that user's \<^verbatim>\<open>id\<close> besides the four groups
  \<^verbatim>\<open>farm_details\<close>, \<^verbatim>\<open>crop_info\<close>, \<^verbatim>\<open>soil_inputs\<close> and \<^verbatim>\<open>irrigation_info\<close>.  Without a
  user the assembly throws and \<^verbatim>\<open>handleSubmit\<close> posts nothing; with a user it posts
  exactly the assembled body.
\<close>

theorem request_carries_user_id:
  "(requestData usr fd = Inr body \<longrightarrow>
      (\<exists>u. usr = Some u \<and> jget ''user_id'' body = Some (JString (id' u)) \<and>
           jget ''farm_details'' body \<noteq> None \<and> jget ''crop_info'' body \<noteq> None \<and>
           jget ''soil_inputs'' body \<noteq> None \<and> jget ''irrigation_info'' body \<noteq> None)) \<and>
   requestData None fd = Inl TypeError \<and>
   predictRequests (handleSubmit None st) = predictRequests st \<and>
   (\<exists>b. requestData (Some u') (formData st) = Inr b \<and>
        predictRequests (handleSubmit (Some u') st) = predictRequests st @ [b])"
  by (auto simp: requestData_def handleSubmit_def handleSubmit_rejected_def split: option.splits)

text \<open>The body assembled for the sample user carries the sample user's id.\<close>

theorem request_carries_user_id_witness:
  "\<exists>body. requestData (Some sampleUser) initialFormData = Inr body \<and>
     jget ''user_id'' body = Some (JString ''u-17'')"
proof -
  obtain body where b: "requestData (Some sampleUser) initialFormData = Inr body"
    by (simp add: requestData_def)
  with request_carries_user_id[of "Some sampleUser" initialFormData body]
  have "jget ''user_id'' body = Some (JString (id' sampleUser))"
    by auto
  with b show ?thesis by (simp add: sampleUser_def)
qed

section \<open>The stages of the prediction workflow\<close>




text \<open>
  C6.  When the answer to a pending prediction request is a success, the component
  holds the returned result and shows the result view.  When it is a failure, the
  fields, the prediction and the district list are untouched, \<^verbatim>\<open>loading\<close> is reset and
  one destructive toast titled "Error" is raised whose description is the failure
  detail, or the fixed text when the detail is absent or empty.  A submission from
  Editing that fails leaves the component exactly as it was before the submission, but
  for that toast.  In every state the form reaches with a request outstanding the
  stage is Submitting, a success leads to Result and a failure back to Editing,
  whatever was edited meanwhile.
\<close>

theorem handleSubmit_outcomes:
  "(i < length (predictRequests st) \<longrightarrow>
      prediction (step api valid usr st (PredictResolved i r)) = Some r \<and>
      stage (step api valid usr st (PredictResolved i r)) = Result \<and>
      formData (step api valid usr st (PredictRejected i detail)) = formData st \<and>
      prediction (step api valid usr st (PredictRejected i detail)) = prediction st \<and>
      districts (step api valid usr st (PredictRejected i detail)) = districts st \<and>
      \<not> form_loading (step api valid usr st (PredictRejected i detail)) \<and>
      form_toasts (step api valid usr st (PredictRejected i detail)) =
        form_toasts st @
          [\<lparr>title = ''Error'',
            description =
              (case detail of
                 None \<Rightarrow> ''Failed to generate prediction''
               | Some d \<Rightarrow> if d \<noteq> [] then d else ''Failed to generate prediction''),
            destructive = True\<rparr>]) \<and>
   (stage st = Editing \<and> \<not> submitDisabled st \<and> valid (formData st) \<longrightarrow>
      stage (step api valid (Some u) st Submit) = Submitting \<and>
      step api valid (Some u) (step api valid (Some u) st Submit)
          (PredictRejected (length (predictRequests st)) detail) =
        st\<lparr>form_toasts :=
             form_toasts st @
               [\<lparr>title = ''Error'',
                 description =
                   (case detail of
                      None \<Rightarrow> ''Failed to generate prediction''
                    | Some d \<Rightarrow> if d \<noteq> [] then d else ''Failed to generate prediction''),
                 destructive = True\<rparr>]\<rparr> \<and>
      stage (step api valid (Some u) (step api valid (Some u) st Submit)
          (PredictRejected (length (predictRequests st)) detail)) = Editing) \<and>
   (i < length (predictRequests (run api valid usr initialForm evs)) \<longrightarrow>
      stage (run api valid usr initialForm evs) = Submitting \<and>
      stage (step api valid usr (run api valid usr initialForm evs) (PredictResolved i r)) =
        Result \<and>
      stage (step api valid usr (run api valid usr initialForm evs) (PredictRejected i detail)) =
        Editing)"
proof -
  have a: "i < length (predictRequests st) \<longrightarrow>
      prediction (step api valid usr st (PredictResolved i r)) = Some r \<and>
      stage (step api valid usr st (PredictResolved i r)) = Result \<and>
      formData (step api valid usr st (PredictRejected i detail)) = formData st \<and>
      prediction (step api valid usr st (PredictRejected i detail)) = prediction st \<and>
      districts (step api valid usr st (PredictRejected i detail)) = districts st \<and>
      \<not> form_loading (step api valid usr st (PredictRejected i detail)) \<and>
      form_toasts (step api valid usr st (PredictRejected i detail)) =
        form_toasts st @
          [\<lparr>title = ''Error'',
            description =
              (case detail of
                 None \<Rightarrow> ''Failed to generate prediction''
               | Some d \<Rightarrow> if d \<noteq> [] then d else ''Failed to generate prediction''),
            destructive = True\<rparr>]" for st
    by (simp add: form_defs detailOr_def)
  have b: "stage st = Editing \<and> \<not> submitDisabled st \<and> valid (formData st) \<longrightarrow>
      stage (step api valid (Some u) st Submit) = Submitting \<and>
      step api valid (Some u) (step api valid (Some u) st Submit)
          (PredictRejected (length (predictRequests st)) detail) =
        st\<lparr>form_toasts :=
             form_toasts st @
               [\<lparr>title = ''Error'',
                 description =
                   (case detail of
                      None \<Rightarrow> ''Failed to generate prediction''
                    | Some d \<Rightarrow> if d \<noteq> [] then d else ''Failed to generate prediction''),
                 destructive = True\<rparr>]\<rparr> \<and>
      stage (step api valid (Some u) (step api valid (Some u) st Submit)
          (PredictRejected (length (predictRequests st)) detail)) = Editing"
    by (auto simp: form_defs detailOr_def requestData_def split: if_splits)
  have c: "i < length (predictRequests (run api valid usr initialForm evs)) \<longrightarrow>
      stage (run api valid usr initialForm evs) = Submitting \<and>
      stage (step api valid usr (run api valid usr initialForm evs) (PredictResolved i r)) =
        Result \<and>
      stage (step api valid usr (run api valid usr initialForm evs) (PredictRejected i detail)) =
        Editing"
  proof
    assume i: "i < length (predictRequests (run api valid usr initialForm evs))"
    then have "predictRequests (run api valid usr initialForm evs) \<noteq> []" by auto
    from pending_is_submitting[OF this] failed_submission_returns_to_editing[OF i]
      a[of "run api valid usr initialForm evs"] i
    show "stage (run api valid usr initialForm evs) = Submitting \<and>
      stage (step api valid usr (run api valid usr initialForm evs) (PredictResolved i r)) =
        Result \<and>
      stage (step api valid usr (run api valid usr initialForm evs) (PredictRejected i detail)) =
        Editing"
      by blast
  qed
  from a[of st] b c show ?thesis by blast
qed

text \<open>
  The scenario of the specification: the submission succeeds, or it fails with the
  detail "Model unavailable", at once or after another field was edited.
\<close>

theorem handleSubmit_outcomes_witness:
  "stage (run sampleApi sampleValid (Some sampleUser) initialForm (fillRequired ''2.5'')) =
     Editing \<and>
   stage (run sampleApi sampleValid (Some sampleUser) initialForm
      (fillRequired ''2.5'' @ [Submit])) = Submitting \<and>
   prediction (run sampleApi sampleValid (Some sampleUser) initialForm
      (fillRequired ''2.5'' @ [Submit, PredictResolved 0 sampleResult])) = Some sampleResult \<and>
   run sampleApi sampleValid (Some sampleUser) initialForm
      (fillRequired ''2.5'' @ [Submit, PredictRejected 0 (Some ''Model unavailable'')]) =
     (run sampleApi sampleValid (Some sampleUser) initialForm (fillRequired ''2.5''))
       \<lparr>form_toasts :=
          [\<lparr>title = ''Error'', description = ''Model unavailable'', destructive = True\<rparr>]\<rparr> \<and>
   stage (step sampleApi sampleValid (Some sampleUser)
      (run sampleApi sampleValid (Some sampleUser) initialForm
         (fillRequired ''2.5'' @ [Submit, InputChange Village ''Konark'']))
      (PredictRejected 0 (Some ''Model unavailable''))) = Editing"
proof -
  let ?st = "run sampleApi sampleValid (Some sampleUser) initialForm (fillRequired ''2.5'')"
  let ?sub = "step sampleApi sampleValid (Some sampleUser) ?st Submit"
  let ?evs = "fillRequired ''2.5'' @ [Submit, InputChange Village ''Konark'']"
  have w: "0 < length (predictRequests
      (run sampleApi sampleValid (Some sampleUser) initialForm ?evs))"
    by (simp add: run_Cons run_Nil fillRequired_def form_defs requestData_def)
  from handleSubmit_outcomes[where i = 0 and api = sampleApi and valid = sampleValid
      and usr = "Some sampleUser" and r = sampleResult
      and detail = "Some ''Model unavailable''" and evs = ?evs] w
  have 4: "stage (step sampleApi sampleValid (Some sampleUser)
      (run sampleApi sampleValid (Some sampleUser) initialForm ?evs)
      (PredictRejected 0 (Some ''Model unavailable''))) = Editing"
    by blast
  have e: "stage ?st = Editing" and d: "\<not> submitDisabled ?st"
    and v: "sampleValid (formData ?st)"
    and r: "predictRequests ?st = []" and t: "form_toasts ?st = []"
    by (simp_all add: run_Cons run_Nil fillRequired_def form_defs)
  have n: "0 < length (predictRequests ?sub)"
    by (simp add: run_Cons run_Nil fillRequired_def form_defs requestData_def)
  have a: "run sampleApi sampleValid (Some sampleUser) initialForm
              (fillRequired ''2.5'' @ [Submit]) = ?sub"
    and b: "run sampleApi sampleValid (Some sampleUser) initialForm
              (fillRequired ''2.5'' @ [Submit, PredictResolved 0 sampleResult]) =
            step sampleApi sampleValid (Some sampleUser) ?sub (PredictResolved 0 sampleResult)"
    and c: "run sampleApi sampleValid (Some sampleUser) initialForm
              (fillRequired ''2.5'' @ [Submit, PredictRejected 0 (Some ''Model unavailable'')]) =
            step sampleApi sampleValid (Some sampleUser) ?sub
              (PredictRejected 0 (Some ''Model unavailable''))"
    by (simp_all only: run_append run_Cons run_Nil)
  from handleSubmit_outcomes[where i = 0 and st = ?sub and api = sampleApi
      and valid = sampleValid and usr = "Some sampleUser" and r = sampleResult] n
  have 1: "prediction (step sampleApi sampleValid (Some sampleUser) ?sub
             (PredictResolved 0 sampleResult)) = Some sampleResult"
    by blast
  from handleSubmit_outcomes[where st = ?st and api = sampleApi and valid = sampleValid
      and detail = "Some ''Model unavailable''" and u = sampleUser] e d v r t
  have 2: "stage ?sub = Submitting"
    and 3: "step sampleApi sampleValid (Some sampleUser) ?sub
              (PredictRejected 0 (Some ''Model unavailable'')) =
            ?st\<lparr>form_toasts :=
                [\<lparr>title = ''Error'', description = ''Model unavailable'', destructive = True\<rparr>]\<rparr>"
    by simp_all
  from e 1 2 3 4 show ?thesis
    by (simp only: a b c simp_thms)
qed

section \<open>Session resolution at startup\<close>

text \<open>
  C7.  Started with a non-empty persisted token, the provider sets the Authorization
  header and issues one profile request while the loading screen shows.  When the
  profile arrives the user is set, the token is kept and the main screen shows.  When
  the request fails, the token cell, the persisted token and the header are all
  cleared and the login form shows; this holds for a failed profile request in any
  state.  No other answer to a request, and in particular no failed login or
  registration, clears a token that is present: apart from the profile failure only
  the user's own logout does.
\<close>

theorem startup_session_resolution:
  "(t \<noteq> [] \<longrightarrow>
      meRequests (mountAuth (Some t)) = 1 \<and>
      authorization (mountAuth (Some t)) = Some (''Bearer '' @ t) \<and>
      mainApp (mountAuth (Some t)) = LoadingScreen \<and>
      user (authStep (mountAuth (Some t)) (MeResolved u)) = Some u \<and>
      token (authStep (mountAuth (Some t)) (MeResolved u)) = Some t \<and>
      mainApp (authStep (mountAuth (Some t)) (MeResolved u)) = MainScreen \<and>
      token (authStep (mountAuth (Some t)) MeRejected) = None \<and>
      localStorage_token (authStep (mountAuth (Some t)) MeRejected) = None \<and>
      authorization (authStep (mountAuth (Some t)) MeRejected) = None \<and>
      user (authStep (mountAuth (Some t)) MeRejected) = None \<and>
      mainApp (authStep (mountAuth (Some t)) MeRejected) = LoginForm) \<and>
   (0 < meRequests st \<longrightarrow>
      token (authStep st MeRejected) = None \<and>
      localStorage_token (authStep st MeRejected) = None \<and>
      authorization (authStep st MeRejected) = None \<and>
      \<not> auth_loading (authStep st MeRejected)) \<and>
   (ev \<noteq> MeRejected \<and> ev \<noteq> Logout \<longrightarrow>
      (localStorage_token st \<noteq> None \<longrightarrow> localStorage_token (authStep st ev) \<noteq> None) \<and>
      (token st \<noteq> None \<longrightarrow> token (authStep st ev) \<noteq> None))"
proof -
  have a: "t \<noteq> [] \<longrightarrow>
      meRequests (mountAuth (Some t)) = 1 \<and>
      authorization (mountAuth (Some t)) = Some (''Bearer '' @ t) \<and>
      mainApp (mountAuth (Some t)) = LoadingScreen \<and>
      user (authStep (mountAuth (Some t)) (MeResolved u)) = Some u \<and>
      token (authStep (mountAuth (Some t)) (MeResolved u)) = Some t \<and>
      mainApp (authStep (mountAuth (Some t)) (MeResolved u)) = MainScreen \<and>
      token (authStep (mountAuth (Some t)) MeRejected) = None \<and>
      localStorage_token (authStep (mountAuth (Some t)) MeRejected) = None \<and>
      authorization (authStep (mountAuth (Some t)) MeRejected) = None \<and>
      user (authStep (mountAuth (Some t)) MeRejected) = None \<and>
      mainApp (authStep (mountAuth (Some t)) MeRejected) = LoginForm"
    by (simp add: auth_defs)
  have b: "0 < meRequests st \<longrightarrow>
      token (authStep st MeRejected) = None \<and>
      localStorage_token (authStep st MeRejected) = None \<and>
      authorization (authStep st MeRejected) = None \<and>
      \<not> auth_loading (authStep st MeRejected)"
    by (simp add: auth_defs)
  have c: "ev \<noteq> MeRejected \<and> ev \<noteq> Logout \<longrightarrow>
      (localStorage_token st \<noteq> None \<longrightarrow> localStorage_token (authStep st ev) \<noteq> None) \<and>
      (token st \<noteq> None \<longrightarrow> token (authStep st ev) \<noteq> None)"
    by (cases ev) (simp_all add: tokenEffect_keeps fetchUser_resolved_def login_resolved_def
        register_resolved_def)
  from a b c show ?thesis by blast
qed

text \<open>
  Startup with the persisted token \<^verbatim>\<open>tok\<close>: the profile request fails, or succeeds, or
  a login attempt fails meanwhile.
\<close>

theorem startup_session_resolution_witness:
  "mainApp (authStep (mountAuth (Some ''tok'')) MeRejected) = LoginForm \<and>
   localStorage_token (authStep (mountAuth (Some ''tok'')) MeRejected) = None \<and>
   authorization (authStep (mountAuth (Some ''tok'')) MeRejected) = None \<and>
   mainApp (authStep (mountAuth (Some ''tok'')) (MeResolved sampleUser)) = MainScreen \<and>
   localStorage_token (mountAuth (Some ''tok'')) = Some ''tok'' \<and>
   localStorage_token (authStep (mountAuth (Some ''tok'')) LoginRejected) \<noteq> None"
proof -
  have m: "0 < meRequests (mountAuth (Some ''tok''))"
    and l: "localStorage_token (mountAuth (Some ''tok'')) = Some ''tok''"
    and k: "token (mountAuth (Some ''tok'')) \<noteq> None"
    by (simp_all add: auth_defs)
  have n: "''tok'' \<noteq> []" and e: "LoginRejected \<noteq> MeRejected \<and> LoginRejected \<noteq> Logout"
    by simp_all
  have l': "localStorage_token (mountAuth (Some ''tok'')) \<noteq> None"
    by (simp add: l)
  from startup_session_resolution[of "''tok''" sampleUser "mountAuth (Some ''tok'')" LoginRejected]
    m l l' k n e
  show ?thesis by blast
qed

section \<open>The chat transcript\<close>

text \<open>
  C8 (as the code has it).  The transcript starts with the assistant's greeting, so
  after any run of events from the initial state its length is one more than the
  number of accepted sends plus the number of successful responses.  From any state
  the transcript grows by exactly that sum, and the number of user turns grows by the
  number of accepted sends.  A send attempt while a request is outstanding or with
  blank text changes nothing, and a failed response leaves the transcript as it is,
  the user's turn included.  In every state the chat reaches, \<^verbatim>\<open>loading\<close> is set
  exactly while a request is outstanding, and at most one is.
\<close>

theorem transcript_length:
  "length (messages (chatRun initialChat evs)) =
     1 + accepted initialChat evs + succeeded initialChat evs \<and>
   length (messages (chatRun st evs)) = length (messages st) + accepted st evs + succeeded st evs \<and>
   length (filter (\<lambda>m. sender m = User) (messages (chatRun st evs))) =
     length (filter (\<lambda>m. sender m = User) (messages st)) + accepted st evs \<and>
   (sendAttempt ev \<and> (chat_loading st \<or> trim (newMessage st) = []) \<longrightarrow> chatStep st ev = st) \<and>
   messages (chatStep st (ChatRejected i)) = messages st \<and>
   chat_loading (chatRun initialChat evs) = (chatRequests (chatRun initialChat evs) \<noteq> []) \<and>
   length (chatRequests (chatRun initialChat evs)) \<le> 1"
proof -
  have "length (messages initialChat) = 1"
    by (simp add: initialChat_def)
  moreover note one_outstanding[of evs]
  moreover have "messages (chatStep st (ChatRejected i)) = messages st"
    by (simp add: chat_defs)
  moreover have "sendAttempt ev \<and> (chat_loading st \<or> trim (newMessage st) = []) \<longrightarrow>
      chatStep st ev = st"
    using rejected_send_noop[of ev st] by (auto simp: sendAccepted_def)
  ultimately show ?thesis
    using messages_chatRun[of initialChat evs] messages_chatRun[of st evs]
      user_turns_chatRun[of st evs]
    by simp
qed

text \<open>
  One accepted send, a second click while the request is outstanding, Enter on the
  blank initial input and on an input of a no-break space and a space, and a failed
  response: the transcript holds the greeting and the user's turn.
\<close>

theorem transcript_length_witness:
  "chatStep (chatRun initialChat [Type ''hi'', ClickSend]) ClickSend =
     chatRun initialChat [Type ''hi'', ClickSend] \<and>
   chatStep initialChat PressEnter = initialChat \<and>
   chatStep (chatRun initialChat [Type [CHR 0xA0, CHR 0x20]]) PressEnter =
     chatRun initialChat [Type [CHR 0xA0, CHR 0x20]] \<and>
   length (messages (chatRun initialChat [Type ''hi'', ClickSend, ClickSend, ChatRejected 0])) = 2"
proof -
  have b: "trim (newMessage (chatRun initialChat [Type [CHR 0xA0, CHR 0x20]])) = []"
    by (simp add: chatRun_Cons chatRun_Nil chat_defs trim_defs)
  have l: "chat_loading (chatRun initialChat [Type ''hi'', ClickSend])"
    by (simp add: chatRun_Cons chatRun_Nil chat_defs trim_defs)
  have e: "trim (newMessage initialChat) = []"
    by (simp add: initialChat_def trim_def)
  have n: "accepted initialChat [Type ''hi'', ClickSend, ClickSend, ChatRejected 0] = 1 \<and>
     succeeded initialChat [Type ''hi'', ClickSend, ClickSend, ChatRejected 0] = 0"
    by (simp add: chatRun_Cons chatRun_Nil chat_defs trim_defs)
  show ?thesis
    using transcript_length[where evs = "[Type ''hi'', ClickSend, ClickSend, ChatRejected 0]"
        and ev = ClickSend and st = "chatRun initialChat [Type ''hi'', ClickSend]"]
      transcript_length[where evs = "[]" and ev = PressEnter and st = initialChat]
      transcript_length[where evs = "[]" and ev = PressEnter
        and st = "chatRun initialChat [Type [CHR 0xA0, CHR 0x20]]"] l e n b
    by simp
qed

text \<open>
  Against C8 as stated: one send is accepted, one concurrent send is rejected and the
  response succeeds, so the stated length is 1 + 1; the transcript has three turns,
  the greeting being the first.
\<close>

theorem transcript_counts_greeting:
  "accepted initialChat [Type ''hi'', ClickSend, ClickSend, ChatResolved 0 ''ok'' None] = 1 \<and>
   rejected initialChat [Type ''hi'', ClickSend, ClickSend, ChatResolved 0 ''ok'' None] = 1 \<and>
   succeeded initialChat [Type ''hi'', ClickSend, ClickSend, ChatResolved 0 ''ok'' None] = 1 \<and>
   length (messages
     (chatRun initialChat [Type ''hi'', ClickSend, ClickSend, ChatResolved 0 ''ok'' None])) = 3 \<and>
   sender (hd (messages
     (chatRun initialChat [Type ''hi'', ClickSend, ClickSend, ChatResolved 0 ''ok'' None]))) = Bot"
  by (simp add: chatRun_Cons chatRun_Nil chat_defs trim_defs)

text \<open>
  C10.  When the answer to an outstanding chat request arrives, success or failure,
  \<^verbatim>\<open>newMessage\<close> is reset to the empty string; on failure \<^verbatim>\<open>loading\<close> is reset as well
  and the transcript is unchanged, so the text that failed is not kept for a retry.
\<close>

theorem input_cleared_after_response:
  "i < length (chatRequests st) \<longrightarrow>
     newMessage (chatStep st (ChatResolved i response recs)) = [] \<and>
     newMessage (chatStep st (ChatRejected i)) = [] \<and>
     \<not> chat_loading (chatStep st (ChatRejected i)) \<and>
     messages (chatStep st (ChatRejected i)) = messages st"
  by (simp add: chat_defs)

text \<open>The text \<^verbatim>\<open>hello\<close> is sent and the request fails.\<close>

theorem input_cleared_after_response_witness:
  "newMessage (chatRun initialChat [Type ''hello'', ClickSend]) = ''hello'' \<and>
   newMessage (chatStep (chatRun initialChat [Type ''hello'', ClickSend]) (ChatRejected 0)) = []"
proof -
  have r: "chatRequests (chatRun initialChat [Type ''hello'', ClickSend]) = [(''hello'', ''en'')]"
    by (simp add: chatRun_Cons chatRun_Nil chat_defs trim_defs)
  have m: "newMessage (chatRun initialChat [Type ''hello'', ClickSend]) = ''hello''"
    by (simp add: chatRun_Cons chatRun_Nil chat_defs trim_defs)
  show ?thesis
    using input_cleared_after_response[of 0 "chatRun initialChat [Type ''hello'', ClickSend]" "[]" None]
      r m
    by simp
qed

end
